theory Spec2Isabelle
  imports
    Main
    "HOL-Library.Char_ord"
    "HOL-Library.List_Lexorder"
    "HOL-Library.Product_Lexorder"
begin

section \<open>cclint: a shallow embedding of \<^verbatim>\<open>cclint.py\<close>\<close>

text \<open>
  The analysed pipeline of \<^verbatim>\<open>cclint.py\<close>: \<^verbatim>\<open>parse_bytecode\<close>, \<^verbatim>\<open>get_apis\<close>,
  \<^verbatim>\<open>get_global_refs\<close>, \<^verbatim>\<open>get_directives\<close> and \<^verbatim>\<open>check\<close>. The call of the external
  compiler (\<^verbatim>\<open>get_bytecode_listing\<close>) is not part of the model: its two results, the
  listing and the error text (both already decoded as ASCII), are arguments of \<open>check\<close>.
  Byte strings and ASCII text are both \<^typ>\<open>string\<close>; Python's \<^verbatim>\<open>None\<close> is \<^term>\<open>None\<close>.
  Python's \<^verbatim>\<open>int\<close> is unbounded, and so is \<^typ>\<open>nat\<close>; the interpreter's configurable limit
  on the length of a decimal string passed to \<^verbatim>\<open>int()\<close> is not modelled.
\<close>

subsection \<open>Characters, numbers and strings\<close>

definition NL :: char where "NL = CHR 0x0A"
definition CR :: char where "CR = CHR 0x0D"
definition TAB :: char where "TAB = CHR 0x09"
definition DQ :: char where "DQ = CHR 0x22"

text \<open>The character classes of the regular expressions.\<close>

definition is_digit :: "char \<Rightarrow> bool" where
  \<comment> \<open>\<^verbatim>\<open>\d\<close> on ASCII text\<close>
  "is_digit c = (c \<in> set ''0123456789'')"

definition is_upper :: "char \<Rightarrow> bool" where
  \<comment> \<open>\<^verbatim>\<open>[A-Z]\<close>\<close>
  "is_upper c = (c \<in> set ''ABCDEFGHIJKLMNOPQRSTUVWXYZ'')"

definition is_word :: "char \<Rightarrow> bool" where
  \<comment> \<open>\<^verbatim>\<open>\w\<close> in a bytes pattern: \<^verbatim>\<open>[a-zA-Z0-9_]\<close>\<close>
  "is_word c = (is_digit c \<or> is_upper c \<or> c \<in> set ''abcdefghijklmnopqrstuvwxyz_'')"

definition is_space :: "char \<Rightarrow> bool" where
  \<comment> \<open>\<^verbatim>\<open>\s\<close> in a bytes pattern: \<^verbatim>\<open>[ \t\n\r\f\v]\<close>\<close>
  "is_space c = (c \<in> set [CHR '' '', TAB, NL, CR, CHR 0x0C, CHR 0x0B])"

definition is_str_space :: "char \<Rightarrow> bool" where
  \<comment> \<open>what \<^verbatim>\<open>str.strip()\<close> removes, among ASCII characters\<close>
  "is_str_space c = (is_space c \<or> c \<in> set [CHR 0x1C, CHR 0x1D, CHR 0x1E, CHR 0x1F])"

definition dot :: "char \<Rightarrow> bool" where
  \<comment> \<open>\<^verbatim>\<open>.\<close> without the DOTALL flag\<close>
  "dot c = (c \<noteq> NL)"

definition digit_val :: "char \<Rightarrow> nat" where
  "digit_val c = length (takeWhile (\<lambda>d. d \<noteq> c) ''0123456789'')"

definition int_of_str :: "string \<Rightarrow> nat" where
  \<comment> \<open>\<^verbatim>\<open>int(s)\<close> for a non-empty string of decimal digits\<close>
  "int_of_str s = foldl (\<lambda>n c. 10 * n + digit_val c) 0 s"

fun str_nat :: "nat \<Rightarrow> string" where
  \<comment> \<open>\<^verbatim>\<open>str(n)\<close> for \<^verbatim>\<open>n >= 0\<close>\<close>
  "str_nat n =
     (if n < 10 then [''0123456789'' ! n]
      else str_nat (n div 10) @ [''0123456789'' ! (n mod 10)])"

declare str_nat.simps [simp del]

definition format_d :: "nat \<Rightarrow> nat \<Rightarrow> string" where
  \<comment> \<open>\<^verbatim>\<open>"{:Wd}".format(n)\<close>: right-aligned in a field of width \<open>W\<close>, filled with spaces\<close>
  "format_d width n = replicate (width - length (str_nat n)) (CHR '' '') @ str_nat n"

primrec split_on :: "char \<Rightarrow> string \<Rightarrow> string list" where
  \<comment> \<open>\<^verbatim>\<open>s.split(d)\<close> for a separator of one character; the result is never empty\<close>
  "split_on d [] = [[]]"
| "split_on d (c # cs) =
     (if c = d then [] # split_on d cs
      else (case split_on d cs of [] \<Rightarrow> [[c]] | piece # pieces \<Rightarrow> (c # piece) # pieces))"

definition rstrip :: "(char \<Rightarrow> bool) \<Rightarrow> string \<Rightarrow> string" where
  "rstrip p s = rev (dropWhile p (rev s))"

definition strip :: "string \<Rightarrow> string" where
  \<comment> \<open>\<^verbatim>\<open>str.strip()\<close>\<close>
  "strip s = dropWhile is_str_space (rstrip is_str_space s)"

definition startswith :: "string \<Rightarrow> string \<Rightarrow> bool" where
  "startswith s p = (take (length p) s = p)"

primrec contains :: "string \<Rightarrow> string \<Rightarrow> bool" where
  \<comment> \<open>\<^verbatim>\<open>p in s\<close> on byte strings\<close>
  "contains [] p = (p = [])"
| "contains (c # cs) p = (startswith (c # cs) p \<or> contains cs p)"

primrec count_char :: "char \<Rightarrow> string \<Rightarrow> nat" where
  \<comment> \<open>\<^verbatim>\<open>s.count(c)\<close> for one character\<close>
  "count_char d [] = 0"
| "count_char d (c # cs) = (if c = d then Suc (count_char d cs) else count_char d cs)"

subsection \<open>Backtracking matching\<close>

text \<open>
  Python's \<^verbatim>\<open>re\<close> module matches by backtracking: a repetition offers its ways to match in
  order (a greedy one the longest first, a lazy one the shortest first), and the first way
  for which the rest of the pattern matches is the match. Each pattern of the program is
  written below piece by piece with these combinators, in the order of the pattern.
\<close>

primrec greedy :: "(char \<Rightarrow> bool) \<Rightarrow> string \<Rightarrow> (string \<times> string) list" where
  \<comment> \<open>\<^verbatim>\<open>[p]*\<close>: every split (matched, rest), longest match first\<close>
  "greedy p [] = [([], [])]"
| "greedy p (c # cs) =
     (if p c then map (\<lambda>(t, r). (c # t, r)) (greedy p cs) else []) @ [([], c # cs)]"

primrec lazy :: "(char \<Rightarrow> bool) \<Rightarrow> string \<Rightarrow> (string \<times> string) list" where
  \<comment> \<open>\<^verbatim>\<open>[p]*?\<close>: every split (matched, rest), shortest match first\<close>
  "lazy p [] = [([], [])]"
| "lazy p (c # cs) =
     ([], c # cs) # (if p c then map (\<lambda>(t, r). (c # t, r)) (lazy p cs) else [])"

definition plus :: "(string \<times> string) list \<Rightarrow> (string \<times> string) list" where
  \<comment> \<open>\<^verbatim>\<open>+\<close> instead of \<^verbatim>\<open>*\<close>: at least one character\<close>
  "plus splits = filter (\<lambda>(t, r). t \<noteq> []) splits"

primrec first_match :: "('a \<Rightarrow> 'b option) \<Rightarrow> 'a list \<Rightarrow> 'b option" where
  "first_match k [] = None"
| "first_match k (x # xs) = (case k x of Some y \<Rightarrow> Some y | None \<Rightarrow> first_match k xs)"

definition lit :: "string \<Rightarrow> string \<Rightarrow> string option" where
  \<comment> \<open>literal text: the rest after it\<close>
  "lit l s = (if startswith s l then Some (drop (length l) s) else None)"

definition at_end :: "string \<Rightarrow> bool" where
  \<comment> \<open>\<^verbatim>\<open>$\<close> without the MULTILINE flag: at the end, or before a newline that ends the text\<close>
  "at_end s = (s = [] \<or> s = [NL])"

subsection \<open>The listing parser\<close>

datatype chunk = Main | Function

type_synonym instruction = "chunk option \<times> nat \<times> string \<times> string option"

definition instruction_regex :: "string \<Rightarrow> (string \<times> string \<times> string option) option" where
  \<comment> \<open>\<^verbatim>\<open>^\t\d+\t\[(?P<line>\d+)\]\t(?P<name>[A-Z]+)[ \t]+[\d -]*(\t; (?P<info>.*))?$\<close>:
      the groups line, name and info of \<^verbatim>\<open>instruction_regex.match(s)\<close>\<close>
  "instruction_regex s0 =
     Option.bind (lit [TAB] s0) (\<lambda>s1.
     first_match (\<lambda>(_, s2). Option.bind (lit [TAB, CHR ''[''] s2) (\<lambda>s3.
     first_match (\<lambda>(line, s4). Option.bind (lit [CHR '']'', TAB] s4) (\<lambda>s5.
     first_match (\<lambda>(name, s6).
     first_match (\<lambda>(_, s7).
     first_match (\<lambda>(_, s8).
       (case Option.bind (lit [TAB, CHR '';'', CHR '' ''] s8) (\<lambda>s9.
               first_match (\<lambda>(info, s10). if at_end s10 then Some info else None)
                 (greedy dot s9)) of
          Some info \<Rightarrow> Some (line, name, Some info)
        | None \<Rightarrow> if at_end s8 then Some (line, name, None) else None))
       (greedy (\<lambda>c. is_digit c \<or> c = CHR '' '' \<or> c = CHR ''-'') s7))
       (plus (greedy (\<lambda>c. c = CHR '' '' \<or> c = TAB) s6)))
       (plus (greedy is_upper s5))))
       (plus (greedy is_digit s3))))
       (plus (greedy is_digit s1)))"

fun parse_lines :: "chunk option \<Rightarrow> string list \<Rightarrow> instruction list" where
  \<comment> \<open>the loop of \<^verbatim>\<open>parse_bytecode\<close>, from the current value of \<^verbatim>\<open>chunk\<close>\<close>
  "parse_lines chunk [] = []"
| "parse_lines chunk (l # ls) =
     (let line = rstrip (\<lambda>c. c = CR) l in
      if startswith line ''main <'' then parse_lines (Some Main) ls
      else if startswith line ''function <'' then parse_lines (Some Function) ls
      else (case instruction_regex line of
              Some (ln, name, info) \<Rightarrow> (chunk, int_of_str ln, name, info) # parse_lines chunk ls
            | None \<Rightarrow> parse_lines chunk ls))"

definition parse_bytecode :: "string \<Rightarrow> instruction list" where
  "parse_bytecode listing = parse_lines None (split_on NL listing)"

subsection \<open>The detector of loaded APIs\<close>

datatype py_error = IndexError | TypeError

definition item :: "'a list \<Rightarrow> nat \<Rightarrow> py_error + 'a" where
  \<comment> \<open>\<^verbatim>\<open>xs[i]\<close> for \<^verbatim>\<open>i >= 0\<close>\<close>
  "item xs i = (if i < length xs then Inr (xs ! i) else Inl IndexError)"

definition api_regex :: "string \<Rightarrow> string option" where
  \<comment> \<open>\<^verbatim>\<open>^\".*?(?P<api>[^/]+)\"$\<close>: the group api\<close>
  "api_regex s0 =
     Option.bind (lit [DQ] s0) (\<lambda>s1.
     first_match (\<lambda>(_, s2).
     first_match (\<lambda>(api, s3). Option.bind (lit [DQ] s3) (\<lambda>s4.
       if at_end s4 then Some api else None))
       (plus (greedy (\<lambda>c. c \<noteq> CHR ''/'') s2)))
       (lazy dot s1))"

definition get_apis_step :: "instruction list \<Rightarrow> nat \<Rightarrow> string list \<Rightarrow> py_error + (nat \<times> string list)" where
  \<comment> \<open>one turn of the \<^verbatim>\<open>while\<close> loop of \<^verbatim>\<open>get_apis\<close>: the new \<^verbatim>\<open>i\<close> and \<^verbatim>\<open>apis\<close>\<close>
  "get_apis_step instructions i apis =
     (case item instructions i of Inl e \<Rightarrow> Inl e | Inr (_, _, name0, info0) \<Rightarrow>
      if name0 = ''GETGLOBAL'' \<and> (info0 = Some ''os'' \<or> info0 = Some ''bapil'') then
        (case item instructions (i + 1) of Inl e \<Rightarrow> Inl e | Inr (_, _, name1, info1) \<Rightarrow>
         if name1 = ''GETTABLE'' \<and> info1 = Some (DQ # ''loadAPI'' @ [DQ]) then
           (case item instructions (i + 2) of Inl e \<Rightarrow> Inl e | Inr (_, _, name2, info2) \<Rightarrow>
            if name2 = ''LOADK'' then
              (case item instructions (i + 3) of Inl e \<Rightarrow> Inl e | Inr (_, _, name3, _) \<Rightarrow>
               if name3 = ''CALL'' then
                 (case info2 of
                    None \<Rightarrow> Inl TypeError
                  | Some path \<Rightarrow>
                      (case api_regex path of
                         Some api \<Rightarrow> Inr (i + 3 + 1, apis @ [api])
                       | None \<Rightarrow> Inr (i + 1, apis)))
               else Inr (i + 1, apis))
            else Inr (i + 1, apis))
         else Inr (i + 1, apis))
      else Inr (i + 1, apis))"

function get_apis_loop :: "instruction list \<Rightarrow> nat \<Rightarrow> string list \<Rightarrow> py_error + string list" where
  "get_apis_loop instructions i apis =
     (if i < length instructions then
        (case get_apis_step instructions i apis of
           Inl e \<Rightarrow> Inl e
         | Inr (j, apis') \<Rightarrow> get_apis_loop instructions j apis')
      else Inr apis)"
  by pat_completeness auto
termination
  by (relation "measure (\<lambda>(instructions, i, apis). length instructions - i)")
     (auto simp: get_apis_step_def split: sum.splits prod.splits if_splits option.splits)

declare get_apis_loop.simps [simp del]

definition get_apis :: "instruction list \<Rightarrow> py_error + string list" where
  "get_apis instructions = get_apis_loop instructions 0 []"

subsection \<open>The extractor of global references\<close>

datatype action = Get | Set

type_synonym global_ref = "action \<times> nat \<times> string option \<times> chunk option"

fun get_global_refs :: "instruction list \<Rightarrow> global_ref list" where
  "get_global_refs [] = []"
| "get_global_refs ((chunk, line, name, info) # instructions) =
     (if name = ''GETGLOBAL'' then (Get, line, info, chunk) # get_global_refs instructions
      else if name = ''SETGLOBAL'' then (Set, line, info, chunk) # get_global_refs instructions
      else get_global_refs instructions)"

subsection \<open>The directives\<close>

function names_tail :: "string \<Rightarrow> string \<times> string" where
  \<comment> \<open>\<^verbatim>\<open>(?:,\s*\w+)*\<close>: the text matched and the rest. A repetition ends when a turn
      fails or consumes nothing.\<close>
  "names_tail s0 =
     (case Option.bind (lit '','' s0) (\<lambda>s1.
             first_match (\<lambda>(sp, s2).
             first_match (\<lambda>(w, s3). Some (sp @ w, s3))
               (plus (greedy is_word s2)))
               (greedy is_space s1)) of
        Some (t, s3) \<Rightarrow>
          if length s3 < length s0
          then (case names_tail s3 of (ts, rest) \<Rightarrow> ('','' @ t @ ts, rest))
          else ([], s0)
      | None \<Rightarrow> ([], s0))"
  by pat_completeness auto
termination
  by (relation "measure length") auto

declare names_tail.simps [simp del]

definition names_regex :: "string \<Rightarrow> string \<Rightarrow> (string \<times> string) option" where
  \<comment> \<open>the marker followed by \<^verbatim>\<open>(\w+(?:,\s*\w+)*)\<close>, matched at the start of the text:
      group 1 and the rest\<close>
  "names_regex marker s0 =
     Option.bind (lit marker s0) (\<lambda>s1.
     first_match (\<lambda>(w, s2). case names_tail s2 of (ts, rest) \<Rightarrow> Some (w @ ts, rest))
       (plus (greedy is_word s1)))"

function finditer :: "string \<Rightarrow> string \<Rightarrow> string list" where
  \<comment> \<open>group 1 of each match of \<^verbatim>\<open>re.finditer\<close>: matches are sought from left to right and
      do not overlap\<close>
  "finditer marker s =
     (case names_regex marker s of
        Some (names, rest) \<Rightarrow>
          if length rest < length s then names # finditer marker rest
          else (case s of [] \<Rightarrow> [names] | _ # cs \<Rightarrow> names # finditer marker cs)
      | None \<Rightarrow> (case s of [] \<Rightarrow> [] | _ # cs \<Rightarrow> finditer marker cs))"
  by pat_completeness auto
termination
  by (relation "measure (\<lambda>(marker, s). length s)") auto

declare finditer.simps [simp del]

definition directive_names :: "string \<Rightarrow> string \<Rightarrow> string list" where
  \<comment> \<open>the names of every list that follows the marker, stripped\<close>
  "directive_names marker source =
     concat (map (\<lambda>names. map strip (split_on (CHR '','') names)) (finditer marker source))"

definition get_directives :: "string \<Rightarrow> string list \<times> string list \<times> bool \<times> bool" where
  "get_directives source =
     (let both = directive_names ''lint-ignore-global: '' source;
          ignore_global_get = both @ directive_names ''lint-ignore-global-get: '' source;
          ignore_global_set = both @ directive_names ''lint-ignore-global-set: '' source;
          set_globals_in_main = contains source ''lint-set-globals-in-main-chunk'';
          cache_globals = contains source ''lint-check-globals-cached''
      in (ignore_global_get, ignore_global_set, set_globals_in_main, cache_globals))"

subsection \<open>The diagnostics\<close>

definition lua51_builtins :: "string list" where
  "lua51_builtins =
     [''_G'', ''_VERSION'', ''LUA_PATH'', ''assert'', ''collectgarbage'', ''coroutine'',
      ''debug'', ''dofile'', ''error'', ''gcinfo'', ''getfenv'', ''getmetatable'', ''io'',
      ''ipairs'', ''load'', ''loadfile'', ''loadstring'', ''math'', ''module'',
      ''newproxy'', ''next'', ''os'', ''package'', ''pairs'', ''pcall'', ''print'',
      ''rawequal'', ''rawget'', ''rawset'', ''require'', ''select'', ''setfenv'',
      ''setmetatable'', ''string'', ''table'', ''tonumber'', ''tostring'', ''type'',
      ''unpack'', ''xpcall'']"

definition cc_builtins :: "string list" where
  "cc_builtins =
     [''colors'', ''colours'', ''disk'', ''fs'', ''gps'', ''help'', ''io'', ''keys'',
      ''paintutils'', ''parallel'', ''peripheral'', ''rednet'', ''redstone'', ''shell'',
      ''term'', ''textutils'', ''turtle'', ''vector'']"

definition SQ :: char where "SQ = CHR 0x27"

definition line_width :: "string \<Rightarrow> nat" where
  \<comment> \<open>the width in \<^verbatim>\<open>line_mask\<close>: \<^verbatim>\<open>len(str(source.count(b"\n")))\<close>\<close>
  "line_width source = length (str_nat (count_char NL source))"

definition add_message :: "string \<Rightarrow> string list \<Rightarrow> string \<Rightarrow> nat \<Rightarrow> string \<Rightarrow> string list" where
  \<comment> \<open>\<^verbatim>\<open>add_message(type_, line, message)\<close> with \<^verbatim>\<open>type_\<close> as \<open>severity\<close>: the list \<^verbatim>\<open>messages\<close> after the call\<close>
  "add_message source messages severity line message =
     messages @ [severity @ '':'' @ format_d (line_width source) line @ '': '' @ message]"

definition error_regex :: "string \<Rightarrow> (string \<times> string) option" where
  \<comment> \<open>\<^verbatim>\<open>^.+?:.+?:(?P<line>\d+): (?P<message>.+)$\<close>: the groups line and message\<close>
  "error_regex s0 =
     first_match (\<lambda>(_, s1). Option.bind (lit '':'' s1) (\<lambda>s2.
     first_match (\<lambda>(_, s3). Option.bind (lit '':'' s3) (\<lambda>s4.
     first_match (\<lambda>(line, s5). Option.bind (lit '': '' s5) (\<lambda>s6.
     first_match (\<lambda>(message, s7). if at_end s7 then Some (line, message) else None)
       (plus (greedy dot s6))))
       (plus (greedy is_digit s4))))
       (plus (lazy dot s2))))
       (plus (lazy dot s0))"

fun error_messages :: "string \<Rightarrow> string list \<Rightarrow> string list \<Rightarrow> string list" where
  \<comment> \<open>the loop over the lines of the error text, from the current \<^verbatim>\<open>messages\<close>\<close>
  "error_messages source messages [] = messages"
| "error_messages source messages (error # errors) =
     (case error_regex (rstrip (\<lambda>c. c = CR) error) of
        Some (line, message) \<Rightarrow>
          error_messages source (add_message source messages ''E'' (int_of_str line) message) errors
      | None \<Rightarrow> error_messages source messages errors)"

fun main_sets :: "string option list \<times> string option list \<Rightarrow> global_ref list
    \<Rightarrow> string option list \<times> string option list" where
  \<comment> \<open>the loop under \<^verbatim>\<open>if set_globals_in_main\<close>: the two ignore lists after it\<close>
  "main_sets (ignore_global_get, ignore_global_set) [] = (ignore_global_get, ignore_global_set)"
| "main_sets (ignore_global_get, ignore_global_set) ((action, line, name, chunk) # refs) =
     (if action \<noteq> Set \<or> chunk \<noteq> Some Main
      then main_sets (ignore_global_get, ignore_global_set) refs
      else main_sets (ignore_global_get @ [name], ignore_global_set @ [name]) refs)"

type_synonym warning = "nat \<times> action \<times> string option"

definition skipped :: "string option list \<Rightarrow> string option list \<Rightarrow> string list \<Rightarrow> bool
    \<Rightarrow> global_ref \<Rightarrow> bool" where
  \<comment> \<open>the body of the classification loop reaches a \<^verbatim>\<open>continue\<close>\<close>
  "skipped ignore_global_get ignore_global_set declared_globals cache_globals ref =
     (case ref of (action, line, name, chunk) \<Rightarrow>
        (case action of
           Get \<Rightarrow>
             if name \<in> set ignore_global_get then True
             else if name \<in> set (map Some declared_globals) then
               (if \<not> cache_globals then True
                else if chunk = Some Main then True
                else False)
             else False
         | Set \<Rightarrow>
             if name = Some ''_'' then True
             else if name \<in> set ignore_global_set then True
             else False))"

fun classify :: "string option list \<Rightarrow> string option list \<Rightarrow> string list \<Rightarrow> bool
    \<Rightarrow> warning list \<Rightarrow> global_ref list \<Rightarrow> warning list" where
  \<comment> \<open>the classification loop, from the current \<^verbatim>\<open>warnings\<close>\<close>
  "classify ign_get ign_set declared cache warnings [] = warnings"
| "classify ign_get ign_set declared cache warnings ((action, line, name, chunk) # refs) =
     (if skipped ign_get ign_set declared cache (action, line, name, chunk)
      then classify ign_get ign_set declared cache warnings refs
      else classify ign_get ign_set declared cache (warnings @ [(line, action, name)]) refs)"

definition action_str :: "action \<Rightarrow> string" where
  "action_str a = (case a of Get \<Rightarrow> ''get'' | Set \<Rightarrow> ''set'')"

definition str_opt :: "string option \<Rightarrow> string" where
  \<comment> \<open>how \<^verbatim>\<open>str.format\<close> shows a name that may be \<^verbatim>\<open>None\<close>\<close>
  "str_opt name = (case name of None \<Rightarrow> ''None'' | Some s \<Rightarrow> s)"

definition comparable :: "warning \<Rightarrow> warning \<Rightarrow> bool" where
  \<comment> \<open>comparing the two tuples raises no \<^verbatim>\<open>TypeError\<close>: tuples are compared at their first
      unequal component, and \<^verbatim>\<open>None\<close> is not ordered against a string\<close>
  "comparable v w =
     (case (v, w) of ((l1, a1, n1), (l2, a2, n2)) \<Rightarrow>
        l1 \<noteq> l2 \<or> a1 \<noteq> a2 \<or> n1 = n2 \<or> (n1 \<noteq> None \<and> n2 \<noteq> None))"

definition sort_key_of :: "warning \<Rightarrow> nat \<times> string \<times> string" where
  \<comment> \<open>the order of the tuples \<^verbatim>\<open>(line, action, name)\<close> among comparable ones: by line, then
      by the action as a string, then by the name as a string\<close>
  "sort_key_of w = (case w of (line, a, name) \<Rightarrow> (line, action_str a, str_opt name))"

definition sort_warnings :: "warning list \<Rightarrow> py_error + warning list" where
  \<comment> \<open>\<^verbatim>\<open>warnings.sort()\<close>. A sort by comparisons can only end without an error when no two
      elements are incomparable; the sort is stable.\<close>
  "sort_warnings ws =
     (if list_all (\<lambda>v. list_all (comparable v) ws) ws
      then Inr (sort_key sort_key_of ws)
      else Inl TypeError)"

fun warning_messages :: "string \<Rightarrow> string list \<Rightarrow> warning list \<Rightarrow> string list" where
  \<comment> \<open>the last loop of \<^verbatim>\<open>check\<close>, from the current \<^verbatim>\<open>messages\<close>\<close>
  "warning_messages source messages [] = messages"
| "warning_messages source messages ((line, a, name) # warnings) =
     warning_messages source
       (add_message source messages ''W'' line
          (''global '' @ action_str a @ '' of '' @ [SQ] @ str_opt name @ [SQ]))
       warnings"

definition unsorted_warnings :: "string \<Rightarrow> instruction list \<Rightarrow> string list \<Rightarrow> warning list" where
  \<comment> \<open>\<^verbatim>\<open>check\<close> from \<^verbatim>\<open>global_refs = ...\<close> to the end of the classification loop\<close>
  "unsorted_warnings source instructions apis =
     (let global_refs = get_global_refs instructions;
          declared_globals = lua51_builtins @ cc_builtins @ apis
      in case get_directives source of
           (ignore_global_get, ignore_global_set, set_globals_in_main, cache_globals) \<Rightarrow>
             (case (if set_globals_in_main
                    then main_sets (map Some ignore_global_get, map Some ignore_global_set) global_refs
                    else (map Some ignore_global_get, map Some ignore_global_set)) of
                (ign_get, ign_set) \<Rightarrow>
                  classify ign_get ign_set declared_globals cache_globals [] global_refs))"

definition sorted_warnings :: "string \<Rightarrow> string \<Rightarrow> py_error + warning list" where
  \<comment> \<open>\<^verbatim>\<open>check\<close> from \<^verbatim>\<open>instructions = ...\<close> to \<^verbatim>\<open>warnings.sort()\<close>\<close>
  "sorted_warnings source listing =
     (let instructions = parse_bytecode listing
      in case get_apis instructions of
           Inl e \<Rightarrow> Inl e
         | Inr apis \<Rightarrow> sort_warnings (unsorted_warnings source instructions apis))"

definition check :: "string \<Rightarrow> string \<Rightarrow> string \<Rightarrow> py_error + string list" where
  \<comment> \<open>\<^verbatim>\<open>check(source)\<close>, where \<^verbatim>\<open>get_bytecode_listing(source)\<close> returned
      \<^verbatim>\<open>(listing, errors)\<close>\<close>
  "check source listing errors =
     (if errors \<noteq> [] then Inr (error_messages source [] (split_on NL errors))
      else case sorted_warnings source listing of
             Inl e \<Rightarrow> Inl e
           | Inr warnings \<Rightarrow> Inr (warning_messages source [] warnings))"

subsection \<open>Examples and the wording of the specification\<close>

definition zero_padded_line :: "string \<Rightarrow> nat \<Rightarrow> string" where
  \<comment> \<open>the line field as the specification words it: padded with zeros to the width of the
      newline count of the source\<close>
  "zero_padded_line source line =
     replicate (line_width source - length (str_nat line)) (CHR ''0'') @ str_nat line"

definition syntax_error_text :: string where
  \<comment> \<open>what the compiler writes for a syntax error in line 3\<close>
  "syntax_error_text =
     ''luac: stdin:3: unexpected symbol near '' @ [SQ] @ ''='' @ [SQ] @ [NL]"

definition undeclared_read_listing :: string where
  \<comment> \<open>the listing of \<^verbatim>\<open>bar()\<close> in line 3\<close>
  "undeclared_read_listing =
     [NL] @ ''main <stdin:0,0> (3 instructions, 12 bytes at 0x0)'' @ [NL]
     @ ''0+ params, 2 slots, 0 upvalues, 0 locals, 1 constant, 0 functions'' @ [NL]
     @ [TAB] @ ''1'' @ [TAB] @ ''[3]'' @ [TAB] @ ''GETGLOBAL'' @ [TAB] @ ''0 -1'' @ [TAB] @ ''; bar'' @ [NL]
     @ [TAB] @ ''2'' @ [TAB] @ ''[3]'' @ [TAB] @ ''CALL     '' @ [TAB] @ ''0 1 1'' @ [NL]
     @ [TAB] @ ''3'' @ [TAB] @ ''[3]'' @ [TAB] @ ''RETURN   '' @ [TAB] @ ''0 1'' @ [NL]"

definition main_sets_source :: string where
  "main_sets_source =
     ''-- lint-set-globals-in-main-chunk'' @ [NL]
     @ ''x = 1'' @ [NL]
     @ ''function f() x = x + y end'' @ [NL]"

definition main_sets_listing :: string where
  \<comment> \<open>the listing of \<open>main_sets_source\<close>\<close>
  "main_sets_listing =
     [NL] @ ''main <stdin:0,0> (5 instructions, 20 bytes at 0x0)'' @ [NL]
     @ ''0+ params, 2 slots, 0 upvalues, 0 locals, 3 constants, 1 function'' @ [NL]
     @ [TAB] @ ''1'' @ [TAB] @ ''[2]'' @ [TAB] @ ''LOADK    '' @ [TAB] @ ''0 -2'' @ [TAB] @ ''; 1'' @ [NL]
     @ [TAB] @ ''2'' @ [TAB] @ ''[2]'' @ [TAB] @ ''SETGLOBAL'' @ [TAB] @ ''0 -1'' @ [TAB] @ ''; x'' @ [NL]
     @ [TAB] @ ''3'' @ [TAB] @ ''[3]'' @ [TAB] @ ''CLOSURE  '' @ [TAB] @ ''0 0'' @ [TAB] @ ''; 0x0'' @ [NL]
     @ [TAB] @ ''4'' @ [TAB] @ ''[3]'' @ [TAB] @ ''SETGLOBAL'' @ [TAB] @ ''0 -3'' @ [TAB] @ ''; f'' @ [NL]
     @ [TAB] @ ''5'' @ [TAB] @ ''[3]'' @ [TAB] @ ''RETURN   '' @ [TAB] @ ''0 1'' @ [NL]
     @ [NL] @ ''function <stdin:3,3> (5 instructions, 20 bytes at 0x0)'' @ [NL]
     @ ''0 params, 2 slots, 0 upvalues, 0 locals, 2 constants, 0 functions'' @ [NL]
     @ [TAB] @ ''1'' @ [TAB] @ ''[3]'' @ [TAB] @ ''GETGLOBAL'' @ [TAB] @ ''0 -1'' @ [TAB] @ ''; x'' @ [NL]
     @ [TAB] @ ''2'' @ [TAB] @ ''[3]'' @ [TAB] @ ''GETGLOBAL'' @ [TAB] @ ''1 -2'' @ [TAB] @ ''; y'' @ [NL]
     @ [TAB] @ ''3'' @ [TAB] @ ''[3]'' @ [TAB] @ ''ADD      '' @ [TAB] @ ''0 0 1'' @ [NL]
     @ [TAB] @ ''4'' @ [TAB] @ ''[3]'' @ [TAB] @ ''SETGLOBAL'' @ [TAB] @ ''0 -1'' @ [TAB] @ ''; x'' @ [NL]
     @ [TAB] @ ''5'' @ [TAB] @ ''[3]'' @ [TAB] @ ''RETURN   '' @ [TAB] @ ''0 1'' @ [NL]"

definition headless_listing :: string where
  \<comment> \<open>two instruction lines with no chunk header before them\<close>
  "headless_listing =
     [TAB] @ ''1'' @ [TAB] @ ''[1]'' @ [TAB] @ ''GETGLOBAL'' @ [TAB] @ ''0 -1'' @ [TAB] @ ''; bar'' @ [NL]
     @ [TAB] @ ''2'' @ [TAB] @ ''[1]'' @ [TAB] @ ''RETURN   '' @ [TAB] @ ''0 1''"

section \<open>Lemmas about the loops\<close>

subsection \<open>The classification loop\<close>

lemma classify_acc:
  "classify ign_get ign_set declared cache warnings refs
     = warnings @ classify ign_get ign_set declared cache [] refs"
proof (induction refs arbitrary: warnings)
  case Nil
  show ?case by simp
next
  case (Cons r refs)
  obtain action line name chunk where r: "r = (action, line, name, chunk)"
    by (cases r) auto
  show ?case
    using Cons.IH [of warnings] Cons.IH [of "warnings @ [(line, action, name)]"]
      Cons.IH [of "[(line, action, name)]"]
    by (simp add: r)
qed

lemma classify_Cons:
  "classify ign_get ign_set declared cache [] ((action, line, name, chunk) # refs)
     = (if skipped ign_get ign_set declared cache (action, line, name, chunk) then []
        else [(line, action, name)]) @ classify ign_get ign_set declared cache [] refs"
  using classify_acc [of ign_get ign_set declared cache "[(line, action, name)]" refs]
  by simp

lemma classify_append:
  "classify ign_get ign_set declared cache [] (pre @ post)
     = classify ign_get ign_set declared cache [] pre
       @ classify ign_get ign_set declared cache [] post"
proof (induction pre)
  case Nil
  show ?case by simp
next
  case (Cons r pre)
  obtain action line name chunk where r: "r = (action, line, name, chunk)"
    by (cases r) auto
  show ?case
    unfolding r append_Cons classify_Cons using Cons.IH by simp
qed

lemma classify_set:
  "set (classify ign_get ign_set declared cache [] refs)
     = {(line, action, name) | action line name chunk.
          (action, line, name, chunk) \<in> set refs
          \<and> \<not> skipped ign_get ign_set declared cache (action, line, name, chunk)}"
proof (induction refs)
  case Nil
  show ?case by simp
next
  case (Cons r refs)
  obtain action line name chunk where r: "r = (action, line, name, chunk)"
    by (cases r) auto
  show ?case
    unfolding r classify_Cons using Cons.IH by auto
qed

lemma main_sets_acc:
  "main_sets (ig, is) refs
     = (ig @ map (\<lambda>(action, line, name, chunk). name)
               (filter (\<lambda>(action, line, name, chunk). action = Set \<and> chunk = Some Main) refs),
        is @ map (\<lambda>(action, line, name, chunk). name)
               (filter (\<lambda>(action, line, name, chunk). action = Set \<and> chunk = Some Main) refs))"
proof (induction refs arbitrary: ig "is")
  case Nil
  show ?case by simp
next
  case (Cons r refs)
  obtain action line name chunk where r: "r = (action, line, name, chunk)"
    by (cases r) auto
  show ?case
    by (simp add: r Cons.IH)
qed

subsection \<open>The loops that add messages\<close>

lemma error_messages_acc:
  "error_messages source messages errors
     = messages @ map (\<lambda>(line, message).
           ''E:'' @ format_d (line_width source) (int_of_str line) @ '': '' @ message)
         (List.map_filter (\<lambda>error. error_regex (rstrip (\<lambda>c. c = CR) error)) errors)"
proof (induction errors arbitrary: messages)
  case Nil
  show ?case by (simp add: List.map_filter_simps)
next
  case (Cons e errors)
  show ?case
    by (cases "error_regex (rstrip (\<lambda>c. c = CR) e)")
       (auto simp: Cons.IH List.map_filter_simps add_message_def)
qed

lemma warning_messages_acc:
  "warning_messages source messages warnings
     = messages @ map (\<lambda>(line, a, name).
           ''W:'' @ format_d (line_width source) line @ '': ''
             @ (''global '' @ action_str a @ '' of '' @ [SQ] @ str_opt name @ [SQ]))
         warnings"
proof (induction warnings arbitrary: messages)
  case Nil
  show ?case by simp
next
  case (Cons w warnings)
  obtain line a name where w: "w = (line, a, name)"
    by (cases w) auto
  show ?case
    by (simp add: w Cons.IH add_message_def)
qed

subsection \<open>The parser before the first chunk header\<close>

lemma parse_lines_no_header:
  assumes "\<forall>l \<in> set pre. \<not> startswith (rstrip (\<lambda>c. c = CR) l) ''main <''
                        \<and> \<not> startswith (rstrip (\<lambda>c. c = CR) l) ''function <''"
  shows "parse_lines chunk (pre @ rest)
       = List.map_filter (\<lambda>l. map_option (\<lambda>(ln, name, info). (chunk, int_of_str ln, name, info))
                                 (instruction_regex (rstrip (\<lambda>c. c = CR) l))) pre
         @ parse_lines chunk rest"
  using assms
proof (induction pre)
  case Nil
  show ?case by (simp add: List.map_filter_simps)
next
  case (Cons l pre)
  then show ?case
    by (cases "instruction_regex (rstrip (\<lambda>c. c = CR) l)")
       (auto simp: List.map_filter_simps)
qed

subsection \<open>Sorting keeps the warnings\<close>

lemma sort_warnings_set:
  "sort_warnings ws = Inr ws' \<Longrightarrow> set ws' = set ws"
  by (auto simp: sort_warnings_def split: if_splits)

lemma sorted_warnings_set:
  assumes "sorted_warnings source listing = Inr warnings"
  shows "\<exists>apis. get_apis (parse_bytecode listing) = Inr apis
           \<and> set warnings = set (unsorted_warnings source (parse_bytecode listing) apis)"
  using assms
  by (auto simp: sorted_warnings_def Let_def dest: sort_warnings_set split: sum.splits)

section \<open>Properties\<close>

subsection \<open>The detector of loaded APIs reads past the end of the sequence\<close>

text \<open>
  C3. The claim: for every instruction sequence \<^verbatim>\<open>get_apis\<close> ends normally, also when a
  \<^verbatim>\<open>GETGLOBAL\<close> of a loader object is among the last three instructions. The loop only
  checks \<^verbatim>\<open>i < n\<close>; the instructions at \<^verbatim>\<open>i+1\<close>, \<^verbatim>\<open>i+2\<close> and \<^verbatim>\<open>i+3\<close> are read without
  a check, so on the sequence that holds the single instruction \<^verbatim>\<open>GETGLOBAL os\<close> the
  function raises \<^verbatim>\<open>IndexError\<close>.
\<close>

theorem get_apis_window_overrun:
  "get_apis [(Some Main, 1, ''GETGLOBAL'', Some ''os'')] = Inl IndexError"
  by (simp add: get_apis_def get_apis_loop.simps get_apis_step_def item_def)

subsection \<open>Reads of declared globals and the cached-globals directive\<close>

text \<open>
  C6. A reference event \<open>(Get, line, name, chunk)\<close> whose name is in \<^verbatim>\<open>lua51_builtins\<close> or
  \<^verbatim>\<open>cc_builtins\<close> and not in \<^verbatim>\<open>ignore_global_get\<close>, anywhere in the list of references:
  with \<^verbatim>\<open>cache_globals\<close> true it adds a warning exactly when its chunk is \<open>Function\<close> (in
  \<open>Main\<close> it is skipped), with \<^verbatim>\<open>cache_globals\<close> false it never adds one. The warnings of
  the references before and after it are not affected.
\<close>

theorem declared_read_cached_globals:
  assumes "name \<in> set lua51_builtins \<union> set cc_builtins"
    and "Some name \<notin> set ign_get"
  shows "classify ign_get ign_set (lua51_builtins @ cc_builtins @ apis) cache []
           (pre @ [(Get, line, Some name, Some chunk)] @ post)
       = classify ign_get ign_set (lua51_builtins @ cc_builtins @ apis) cache [] pre
         @ (if cache \<and> chunk = Function then [(line, Get, Some name)] else [])
         @ classify ign_get ign_set (lua51_builtins @ cc_builtins @ apis) cache [] post"
proof -
  have "skipped ign_get ign_set (lua51_builtins @ cc_builtins @ apis) cache
          (Get, line, Some name, Some chunk) = (\<not> (cache \<and> chunk = Function))"
    using assms by (cases chunk) (auto simp: skipped_def)
  then show ?thesis
    by (simp del: classify.simps add: classify_append classify_Cons)
qed

theorem declared_read_cached_globals_witness:
  "''print'' \<in> set lua51_builtins \<union> set cc_builtins
   \<and> Some ''print'' \<notin> set [Some ''foo'']
   \<and> classify [Some ''foo''] [] (lua51_builtins @ cc_builtins @ []) True []
        ([(Get, 1, Some ''print'', Some Main)] @ [(Get, 4, Some ''print'', Some Function)] @ [])
      = [(4, Get, Some ''print'')]"
proof -
  have h1: "''print'' \<in> set lua51_builtins \<union> set cc_builtins"
    by (simp add: lua51_builtins_def)
  have h2: "Some ''print'' \<notin> set [Some ''foo'']"
    by simp
  have main_read: "classify [Some ''foo''] [] (lua51_builtins @ cc_builtins @ []) True []
      [(Get, 1, Some ''print'', Some Main)] = []"
    by (simp add: skipped_def lua51_builtins_def)
  show ?thesis
    using h1 h2 main_read
      declared_read_cached_globals [OF h1 h2, where ign_set = "[]" and apis = "[]"
        and cache = True and pre = "[(Get, 1, Some ''print'', Some Main)]"
        and line = 4 and chunk = Function and post = "[]"]
    by simp
qed

subsection \<open>Writes to the discard identifier\<close>

text \<open>
  C9. A write to the name \<^verbatim>\<open>_\<close> never yields a warning: whatever the two ignore lists, the
  declared globals, the flag \<^verbatim>\<open>cache_globals\<close> and the chunks of the references are, no
  warning \<open>(line, Set, Some ''_'')\<close> is among the warnings of the classification loop.
\<close>

theorem discard_write_never_warns:
  "(line, Set, Some ''_'') \<notin> set (classify ign_get ign_set declared cache [] refs)"
  by (auto simp: classify_set skipped_def)

theorem discard_write_never_warns_witness:
  "classify [] [] [] True []
     [(Set, 1, Some ''_'', Some Main), (Set, 1, Some ''_'', Some Function), (Set, 1, Some ''x'', None)]
     = [(1, Set, Some ''x'')]
   \<and> (1, Set, Some ''_'') \<notin> set (classify [] [] [] True []
     [(Set, 1, Some ''_'', Some Main), (Set, 1, Some ''_'', Some Function), (Set, 1, Some ''x'', None)])"
  using discard_write_never_warns [where line = 1 and ign_get = "[]" and ign_set = "[]"
      and declared = "[]" and cache = True and refs =
      "[(Set, 1, Some ''_'', Some Main), (Set, 1, Some ''_'', Some Function), (Set, 1, Some ''x'', None)]"]
  by (simp add: skipped_def)

subsection \<open>Compile errors end the analysis\<close>

text \<open>
  C1. When the error text of the compiler is not empty, \<^verbatim>\<open>check\<close> returns normally, and its
  result is exactly one \<^verbatim>\<open>E\<close> message for each line of the error text that matches the
  pattern of error lines, in the order of the lines; no message is a warning, and the
  listing plays no part: any other listing gives the same result.
\<close>

theorem compile_error_short_circuit:
  assumes "errors \<noteq> []"
  shows "check source listing errors
       = Inr (map (\<lambda>(line, message).
                ''E:'' @ format_d (line_width source) (int_of_str line) @ '': '' @ message)
              (List.map_filter (\<lambda>error. error_regex (rstrip (\<lambda>c. c = CR) error))
                (split_on NL errors)))
     \<and> (\<forall>messages. check source listing errors = Inr messages
            \<longrightarrow> (\<forall>m \<in> set messages. take 2 m = ''E:''))
     \<and> check source other_listing errors = check source listing errors"
  using assms by (auto simp: check_def error_messages_acc)

theorem compile_error_short_circuit_witness:
  "syntax_error_text \<noteq> []
   \<and> check (replicate 10 NL) undeclared_read_listing syntax_error_text
       = Inr [''E: 3: unexpected symbol near '' @ [SQ] @ ''='' @ [SQ]]
   \<and> check (replicate 10 NL) [] syntax_error_text
       = check (replicate 10 NL) undeclared_read_listing syntax_error_text"
proof -
  have h: "syntax_error_text \<noteq> []"
    by (simp add: syntax_error_text_def)
  have ev: "map (\<lambda>(line, message).
                ''E:'' @ format_d (line_width (replicate 10 NL)) (int_of_str line) @ '': '' @ message)
              (List.map_filter (\<lambda>error. error_regex (rstrip (\<lambda>c. c = CR) error))
                (split_on NL syntax_error_text))
            = [''E: 3: unexpected symbol near '' @ [SQ] @ ''='' @ [SQ]]"
    by code_simp
  show ?thesis
    using h ev compile_error_short_circuit [OF h, where source = "replicate 10 NL"
        and listing = undeclared_read_listing and other_listing = "[]"]
    by simp
qed

subsection \<open>An error text without error lines\<close>

text \<open>
  C10. When the error text is not empty and none of its lines matches the pattern of
  error lines, \<^verbatim>\<open>check\<close> returns the empty list: no error message, and no warning
  either, whatever the listing holds.
\<close>

theorem unparsed_errors_give_nothing:
  assumes "errors \<noteq> []"
    and "\<forall>error \<in> set (split_on NL errors). error_regex (rstrip (\<lambda>c. c = CR) error) = None"
  shows "check source listing errors = Inr []"
proof -
  have "List.map_filter (\<lambda>error. error_regex (rstrip (\<lambda>c. c = CR) error)) (split_on NL errors) = []"
    using assms(2) by (induction "split_on NL errors") (auto simp: List.map_filter_def)
  then show ?thesis
    using assms(1) by (simp add: check_def error_messages_acc)
qed

theorem unparsed_errors_give_nothing_witness:
  "''luac: cannot read stdin'' \<noteq> []
   \<and> List.map_filter (\<lambda>error. error_regex (rstrip (\<lambda>c. c = CR) error))
         (split_on NL ''luac: cannot read stdin'') = []
   \<and> check [] undeclared_read_listing ''luac: cannot read stdin'' = Inr []"
proof -
  have h1: "''luac: cannot read stdin'' \<noteq> []"
    by simp
  have h2: "\<forall>error \<in> set (split_on NL ''luac: cannot read stdin'').
              error_regex (rstrip (\<lambda>c. c = CR) error) = None"
    by code_simp
  have h3: "List.map_filter (\<lambda>error. error_regex (rstrip (\<lambda>c. c = CR) error))
         (split_on NL ''luac: cannot read stdin'') = []"
    by code_simp
  show ?thesis
    using h1 h3 unparsed_errors_give_nothing [OF h1 h2, where source = "[]"
        and listing = undeclared_read_listing]
    by simp
qed

subsection \<open>The line field of a message\<close>

text \<open>
  C5. The claim: the line field of every message is padded with zeros to the width of the
  newline count of the source. The format \<^verbatim>\<open>{:Nd}\<close> that \<^verbatim>\<open>line_mask\<close> holds pads with
  spaces: in a source of ten newlines the error of line 3 is reported as \<^verbatim>\<open>E: 3: ...\<close>,
  not as \<^verbatim>\<open>E:03: ...\<close>.
\<close>

theorem line_field_not_zero_padded:
  "check (replicate 10 NL) [] syntax_error_text
     = Inr [''E: 3: unexpected symbol near '' @ [SQ] @ ''='' @ [SQ]]
   \<and> check (replicate 10 NL) [] syntax_error_text
     \<noteq> Inr [''E:'' @ zero_padded_line (replicate 10 NL) 3
              @ '': unexpected symbol near '' @ [SQ] @ ''='' @ [SQ]]"
proof -
  have ev: "check (replicate 10 NL) [] syntax_error_text
     = Inr [''E: 3: unexpected symbol near '' @ [SQ] @ ''='' @ [SQ]]"
    by code_simp
  have z: "zero_padded_line (replicate 10 NL) 3 = ''03''"
    by code_simp
  show ?thesis
    unfolding ev z by simp
qed

text \<open>
  C5, as the code has it: every message that \<^verbatim>\<open>check\<close> returns is the severity (\<^verbatim>\<open>E\<close> or
  \<^verbatim>\<open>W\<close>), a colon, the line number in decimal, preceded by as many spaces as it is
  shorter than the decimal newline count of the source, then a colon, a space and the text.
\<close>

theorem line_field_space_padded:
  assumes "check source listing errors = Inr messages"
    and "m \<in> set messages"
  shows "\<exists>severity line text.
           m = severity @ '':''
               @ replicate (length (str_nat (count_char NL source)) - length (str_nat line)) (CHR '' '')
               @ str_nat line @ '': '' @ text
           \<and> (severity = ''E'' \<or> severity = ''W'')"
proof (cases "errors = []")
  case False
  with assms obtain line message where
    "m = ''E:'' @ format_d (line_width source) (int_of_str line) @ '': '' @ message"
    by (auto simp: check_def error_messages_acc)
  then have "m = ''E'' @ '':''
      @ replicate (length (str_nat (count_char NL source)) - length (str_nat (int_of_str line))) (CHR '' '')
      @ str_nat (int_of_str line) @ '': '' @ message"
    by (simp add: format_d_def line_width_def)
  then show ?thesis by blast
next
  case True
  with assms obtain line a name where
    "m = ''W:'' @ format_d (line_width source) line @ '': ''
           @ (''global '' @ action_str a @ '' of '' @ [SQ] @ str_opt name @ [SQ])"
    by (auto simp: check_def warning_messages_acc split: sum.splits)
  then have "m = ''W'' @ '':''
      @ replicate (length (str_nat (count_char NL source)) - length (str_nat line)) (CHR '' '')
      @ str_nat line @ '': '' @ (''global '' @ action_str a @ '' of '' @ [SQ] @ str_opt name @ [SQ])"
    by (simp add: format_d_def line_width_def)
  then show ?thesis by blast
qed

theorem line_field_space_padded_witness:
  "check (replicate 10 NL) undeclared_read_listing [] = Inr [''W: 3: global get of '' @ [SQ] @ ''bar'' @ [SQ]]
   \<and> (\<exists>severity line text.
         ''W: 3: global get of '' @ [SQ] @ ''bar'' @ [SQ] = severity @ '':''
               @ replicate (length (str_nat (count_char NL (replicate 10 NL))) - length (str_nat line)) (CHR '' '')
               @ str_nat line @ '': '' @ text
           \<and> (severity = ''E'' \<or> severity = ''W''))"
proof -
  have h1: "check (replicate 10 NL) undeclared_read_listing []
      = Inr [''W: 3: global get of '' @ [SQ] @ ''bar'' @ [SQ]]"
    by code_simp
  have h2: "''W: 3: global get of '' @ [SQ] @ ''bar'' @ [SQ]
      \<in> set [''W: 3: global get of '' @ [SQ] @ ''bar'' @ [SQ]]"
    by simp
  show ?thesis
    using h1 line_field_space_padded [OF h1 h2] by blast
qed

subsection \<open>Writes of the main chunk as declarations\<close>

text \<open>
  C8. When the source holds the marker \<^verbatim>\<open>lint-set-globals-in-main-chunk\<close>, every name that a
  \<^verbatim>\<open>SETGLOBAL\<close> of the main chunk writes is appended to both ignore lists before the
  classification, and no warning about that name, be it a read or a write, in any line
  and any chunk, is among the warnings of the analysis.
\<close>

theorem main_chunk_sets_are_declarations:
  assumes "contains source ''lint-set-globals-in-main-chunk''"
    and "(Set, l, name, Some Main) \<in> set (get_global_refs (parse_bytecode listing))"
    and "sorted_warnings source listing = Inr warnings"
  shows "name \<in> set (fst (main_sets (ign_get, ign_set) (get_global_refs (parse_bytecode listing))))
       \<and> name \<in> set (snd (main_sets (ign_get, ign_set) (get_global_refs (parse_bytecode listing))))
       \<and> (line, a, name) \<notin> set warnings"
proof -
  let ?refs = "get_global_refs (parse_bytecode listing)"
  let ?names = "map (\<lambda>(action, line, name, chunk). name)
      (filter (\<lambda>(action, line, name, chunk). action = Set \<and> chunk = Some Main) ?refs)"
  have name: "name \<in> set ?names"
    using assms(2) by force
  obtain apis where
    ws: "set warnings = set (unsorted_warnings source (parse_bytecode listing) apis)"
    using sorted_warnings_set [OF assms(3)] by blast
  obtain g s c where d: "get_directives source = (g, s, True, c)"
    using assms(1) by (simp add: get_directives_def Let_def)
  have "(line, a, name) \<notin> set (unsorted_warnings source (parse_bytecode listing) apis)"
    using name
    by (cases a) (auto simp: unsorted_warnings_def Let_def d main_sets_acc classify_set skipped_def)
  with ws name show ?thesis
    by (simp add: main_sets_acc)
qed

theorem main_chunk_sets_are_declarations_witness:
  "contains main_sets_source ''lint-set-globals-in-main-chunk''
   \<and> (Set, 2, Some ''x'', Some Main) \<in> set (get_global_refs (parse_bytecode main_sets_listing))
   \<and> sorted_warnings main_sets_source main_sets_listing = Inr [(3, Get, Some ''y'')]
   \<and> (3 :: nat, Set, Some ''x'') \<notin> set [(3, Get, Some ''y'')]
   \<and> (3 :: nat, Get, Some ''x'') \<notin> set [(3, Get, Some ''y'')]"
proof -
  have h1: "contains main_sets_source ''lint-set-globals-in-main-chunk''"
    by code_simp
  have h2: "(Set, 2, Some ''x'', Some Main)
      \<in> set (get_global_refs (parse_bytecode main_sets_listing))"
    by code_simp
  have h3: "sorted_warnings main_sets_source main_sets_listing = Inr [(3, Get, Some ''y'')]"
    by code_simp
  show ?thesis
    using h1 h2 h3
      main_chunk_sets_are_declarations [OF h1 h2 h3, where line = 3 and a = Set]
      main_chunk_sets_are_declarations [OF h1 h2 h3, where line = 3 and a = Get]
    by simp
qed

subsection \<open>Instruction lines before the first chunk header\<close>

text \<open>
  C4. The claim: a line that matches the instruction grammar and stands before any chunk
  header yields no record. \<^verbatim>\<open>parse_bytecode\<close> has no such test: \<^verbatim>\<open>chunk\<close> starts as
  \<^verbatim>\<open>None\<close> and every matching line is appended with the current \<^verbatim>\<open>chunk\<close>, so the two
  instruction lines of a listing with no header yield two records whose chunk is \<^verbatim>\<open>None\<close>.
\<close>

theorem headless_instructions_are_kept:
  "parse_bytecode headless_listing
     = [(None, 1, ''GETGLOBAL'', Some ''bar''), (None, 1, ''RETURN'', None)]
   \<and> parse_bytecode headless_listing \<noteq> []"
proof -
  have ev: "parse_bytecode headless_listing
     = [(None, 1, ''GETGLOBAL'', Some ''bar''), (None, 1, ''RETURN'', None)]"
    by code_simp
  show ?thesis
    unfolding ev by simp
qed

text \<open>
  C4, as the code has it: the lines of the listing that stand before the first chunk
  header are not skipped; each of them that matches the instruction grammar yields a
  record, in the order of the lines, and the chunk of that record is \<^verbatim>\<open>None\<close>.
\<close>

theorem instructions_before_first_header:
  assumes "split_on NL listing = pre @ rest"
    and "\<forall>l \<in> set pre. \<not> startswith (rstrip (\<lambda>c. c = CR) l) ''main <''
                       \<and> \<not> startswith (rstrip (\<lambda>c. c = CR) l) ''function <''"
  shows "parse_bytecode listing
       = List.map_filter (\<lambda>l. map_option (\<lambda>(ln, name, info). (None, int_of_str ln, name, info))
                                 (instruction_regex (rstrip (\<lambda>c. c = CR) l))) pre
         @ parse_lines None rest"
  using parse_lines_no_header [OF assms(2)] by (simp add: parse_bytecode_def assms(1))

theorem instructions_before_first_header_witness:
  "split_on NL headless_listing
     = [[TAB] @ ''1'' @ [TAB] @ ''[1]'' @ [TAB] @ ''GETGLOBAL'' @ [TAB] @ ''0 -1'' @ [TAB] @ ''; bar'']
       @ [[TAB] @ ''2'' @ [TAB] @ ''[1]'' @ [TAB] @ ''RETURN   '' @ [TAB] @ ''0 1'']
   \<and> parse_bytecode headless_listing
     = [(None, 1, ''GETGLOBAL'', Some ''bar'')]
       @ parse_lines None [[TAB] @ ''2'' @ [TAB] @ ''[1]'' @ [TAB] @ ''RETURN   '' @ [TAB] @ ''0 1'']"
proof -
  let ?l1 = "[TAB] @ ''1'' @ [TAB] @ ''[1]'' @ [TAB] @ ''GETGLOBAL'' @ [TAB] @ ''0 -1'' @ [TAB] @ ''; bar''"
  let ?l2 = "[TAB] @ ''2'' @ [TAB] @ ''[1]'' @ [TAB] @ ''RETURN   '' @ [TAB] @ ''0 1''"
  have h1: "split_on NL headless_listing = [?l1] @ [?l2]"
    by code_simp
  have h2: "\<forall>l \<in> set [?l1]. \<not> startswith (rstrip (\<lambda>c. c = CR) l) ''main <''
                       \<and> \<not> startswith (rstrip (\<lambda>c. c = CR) l) ''function <''"
    by code_simp
  have ev: "List.map_filter (\<lambda>l. map_option (\<lambda>(ln, name, info). (None :: chunk option, int_of_str ln, name, info))
                                 (instruction_regex (rstrip (\<lambda>c. c = CR) l))) [?l1]
      = [(None, 1, ''GETGLOBAL'', Some ''bar'')]"
    by code_simp
  show ?thesis
    using h1 instructions_before_first_header [OF h1 h2] unfolding ev by simp
qed

end
